theory Spec2Isabelle
  imports Main "HOL-Library.Sublist" "HOL-Library.Word" "HOL-Library.Char_ord"
    "HOL-Library.List_Lexorder"
begin

section \<open>Capture engine: the \<open>AudioRecorder\<close> class\<close>

subsection \<open>Data\<close>

text \<open>
  A chunk is the payload of one \<open>dataavailable\<close> event of the browser's encoder: a
  sequence of bytes whose \<open>size\<close> is its length. A blob built by
  \<open>new Blob(chunks, {type})\<close> keeps the list of chunks it was built from, so that a
  returned blob can be compared with the chunk history.
\<close>

type_synonym chunk = "8 word list"

record blob =
  blob_parts :: "chunk list"
  blob_type :: string

definition blob_size :: "blob \<Rightarrow> nat" where
  "blob_size b = length (concat (blob_parts b))"

text \<open>Values a promise of the source can be settled with, or never settled at all.\<close>

datatype js_error = Error string | DOMException string | TypeError string | RangeError string

datatype 'a promise = Fulfilled 'a | Rejected js_error | Pending

text \<open>
  The browser's \<open>MediaRecorder\<close>: the two attributes the source reads. The handlers the
  source installs (\<open>ondataavailable\<close>, \<open>onerror\<close>) are the same for every encoder it
  creates; \<open>ondataavailable\<close> is the function of that name below.
\<close>

datatype recording_state = Inactive | Recording | Paused

record media_recorder =
  mimeType :: string
  state :: recording_state

type_synonym media_stream = nat

text \<open>
  The fields of the class. \<open>history\<close> is a ghost field, not a field of the class: every
  chunk ever pushed onto \<open>audioChunks\<close>, in arrival order, never cleared.
\<close>

record recorder =
  mediaRecorder :: "media_recorder option"
  audioChunks :: "chunk list"
  processedChunkCount :: nat
  stream :: "media_stream option"
  history :: "chunk list"

definition new_recorder :: recorder where
  "new_recorder =
     \<lparr>mediaRecorder = None, audioChunks = [], processedChunkCount = 0, stream = None,
      history = []\<rparr>"

text \<open>
  What the browser answers while \<open>startRecording\<close> or \<open>restartRecording\<close> runs:
  the result of \<open>navigator.mediaDevices.getUserMedia\<close> (a stream, or the error its
  promise is rejected with), \<open>MediaRecorder.isTypeSupported\<close>, the constructor
  \<open>new MediaRecorder(stream, options)\<close> called with or without a \<open>mimeType\<close> option (the
  \<open>mimeType\<close> attribute of the new encoder, or the exception thrown), and the exception
  thrown by \<open>start(2000)\<close>, if any.
\<close>

record browser =
  getUserMedia :: "js_error + media_stream"
  isTypeSupported :: "string \<Rightarrow> bool"
  newMediaRecorder :: "string option \<Rightarrow> js_error + string"
  start_throws :: "js_error option"

subsection \<open>Operations\<close>

text \<open>The handler of \<open>dataavailable\<close>: a chunk of positive size is appended.\<close>

definition ondataavailable :: "chunk \<Rightarrow> recorder \<Rightarrow> recorder" where
  "ondataavailable data s =
     (if length data > 0
      then s\<lparr>audioChunks := audioChunks s @ [data], history := history s @ [data]\<rparr>
      else s)"

definition startRecording :: "browser \<Rightarrow> recorder \<Rightarrow> unit promise \<times> recorder" where
  "startRecording env s =
     (case getUserMedia env of
        Inl error \<Rightarrow> (Rejected error, s)
      | Inr st \<Rightarrow>
          let s1 = s\<lparr>stream := Some st\<rparr>;
              options = ''audio/webm;codecs=opus''
          in case newMediaRecorder env
                    (if \<not> isTypeSupported env options then None else Some options) of
               Inl error \<Rightarrow> (Rejected error, s1)
             | Inr mime \<Rightarrow>
                 let s2 = s1\<lparr>mediaRecorder := Some \<lparr>mimeType = mime, state = Inactive\<rparr>,
                             audioChunks := [], processedChunkCount := 0\<rparr>
                 in case start_throws env of
                      Some error \<Rightarrow> (Rejected error, s2)
                    | None \<Rightarrow>
                        (Fulfilled (),
                         s2\<lparr>mediaRecorder := Some \<lparr>mimeType = mime, state = Recording\<rparr>\<rparr>))"

text \<open>
  \<open>cleanup\<close> stops the tracks of the stream (an effect on the device, outside the fields
  of the class) and resets every field.
\<close>

definition cleanup :: "recorder \<Rightarrow> recorder" where
  "cleanup s =
     s\<lparr>stream := None, mediaRecorder := None, audioChunks := [], processedChunkCount := 0\<rparr>"

text \<open>
  \<open>stopRecording\<close>. \<open>MediaRecorder.stop()\<close> on an encoder that is not inactive makes it
  inactive, fires one \<open>dataavailable\<close> event with the data gathered since the last one
  (the argument \<open>flush\<close>, possibly of size 0) and then \<open>stop\<close>, whose handler \<open>onstop\<close>
  slices the chunks, cleans up and resolves. On an inactive encoder \<open>stop()\<close> does
  nothing, no event is fired and the promise is never settled.
\<close>

definition stopRecording :: "chunk \<Rightarrow> recorder \<Rightarrow> blob promise \<times> recorder" where
  "stopRecording flush s =
     (case mediaRecorder s of
        None \<Rightarrow> (Rejected (Error ''No active recording''), s)
      | Some mr \<Rightarrow>
          if state mr = Inactive then (Pending, s)
          else
            let s1 = ondataavailable flush (s\<lparr>mediaRecorder := Some (mr\<lparr>state := Inactive\<rparr>)\<rparr>);
                mime = (if mimeType mr = [] then ''audio/webm'' else mimeType mr);
                unprocessed = drop (processedChunkCount s1) (audioChunks s1);
                audioBlob = \<lparr>blob_parts = unprocessed, blob_type = mime\<rparr>
            in (Fulfilled audioBlob, cleanup s1))"

definition restartRecording ::
  "browser \<Rightarrow> string \<Rightarrow> media_stream option \<Rightarrow> recorder \<Rightarrow> unit promise \<times> recorder" where
  "restartRecording env mime strm s =
     (case strm of
        None \<Rightarrow> (Rejected (Error ''No stream available for restart''), s)
      | Some st \<Rightarrow>
          (case newMediaRecorder env (if \<not> isTypeSupported env mime then None else Some mime) of
             Inl error \<Rightarrow> (Rejected error, s)
           | Inr mime' \<Rightarrow>
               let s1 = s\<lparr>mediaRecorder := Some \<lparr>mimeType = mime', state = Inactive\<rparr>\<rparr>
               in case start_throws env of
                    Some error \<Rightarrow> (Rejected error, s1)
                  | None \<Rightarrow>
                      (Fulfilled (),
                       s1\<lparr>mediaRecorder := Some \<lparr>mimeType = mime', state = Recording\<rparr>\<rparr>)))"

text \<open>
  \<open>p.then(() => resolve(b)).catch((error) => reject(error))\<close>: the outer promise is
  fulfilled with \<open>b\<close> when \<open>p\<close> is fulfilled and rejected with the error of \<open>p\<close>.
\<close>

fun settle_with :: "unit promise \<Rightarrow> 'a \<Rightarrow> 'a promise" where
  "settle_with (Fulfilled u) b = Fulfilled b"
| "settle_with (Rejected error) b = Rejected error"
| "settle_with Pending b = Pending"

text \<open>
  \<open>processSegment\<close>. The slice of unprocessed chunks is taken when the method is called,
  before \<open>stop()\<close>; the encoder then fires \<open>dataavailable\<close> with \<open>flush\<close> and \<open>stop\<close>,
  whose listener \<open>handleStop\<close> builds the blob from that slice, moves the cursor to the
  length of \<open>audioChunks\<close> and restarts.
\<close>

definition processSegment :: "browser \<Rightarrow> chunk \<Rightarrow> recorder \<Rightarrow> blob promise \<times> recorder" where
  "processSegment env flush s =
     (case mediaRecorder s of
        None \<Rightarrow> (Rejected (Error ''No active recording''), s)
      | Some mr \<Rightarrow>
          if state mr \<noteq> Recording then (Rejected (Error ''No active recording''), s)
          else
            let unprocessed = drop (processedChunkCount s) (audioChunks s);
                currentMimeType = mimeType mr;
                currentStream = stream s;
                s1 = ondataavailable flush (s\<lparr>mediaRecorder := Some (mr\<lparr>state := Inactive\<rparr>)\<rparr>);
                segmentBlob = \<lparr>blob_parts = unprocessed, blob_type = currentMimeType\<rparr>;
                s2 = s1\<lparr>processedChunkCount := length (audioChunks s1)\<rparr>;
                restarted = restartRecording env currentMimeType currentStream s2
            in (settle_with (fst restarted) segmentBlob, snd restarted))"

definition isRecording :: "recorder \<Rightarrow> bool" where
  "isRecording s = (case mediaRecorder s of None \<Rightarrow> False | Some mr \<Rightarrow> state mr = Recording)"

record recording_stats =
  totalChunks :: nat
  processedChunks :: nat
  unprocessedChunks :: int

definition getRecordingStats :: "recorder \<Rightarrow> recording_stats" where
  "getRecordingStats s =
     \<lparr>totalChunks = length (audioChunks s),
      processedChunks = processedChunkCount s,
      unprocessedChunks = int (length (audioChunks s)) - int (processedChunkCount s)\<rparr>"

subsection \<open>Sessions\<close>

text \<open>
  What can happen to a recorder: a call of \<open>startRecording\<close> (with the browser's
  answers), a \<open>dataavailable\<close> event of the running encoder, a call of
  \<open>processSegment\<close> (with the chunk the encoder flushes on \<open>stop()\<close> and the browser's
  answers to the restart), a call of \<open>stopRecording\<close> (with the flushed chunk). The
  caller never overlaps calls, so each runs to its end before the next event. \<open>step\<close>
  gives the blobs handed to the caller (none unless the promise is fulfilled) and the
  recorder afterwards.
\<close>

datatype event = Start browser | Chunk chunk | Segment browser chunk | Stop chunk

fun delivered :: "blob promise \<Rightarrow> blob list" where
  "delivered (Fulfilled b) = [b]"
| "delivered (Rejected e) = []"
| "delivered Pending = []"

fun step :: "event \<Rightarrow> recorder \<Rightarrow> blob list \<times> recorder" where
  "step (Start env) s = ([], snd (startRecording env s))"
| "step (Chunk data) s = ([], ondataavailable data s)"
| "step (Segment env flush) s =
     (delivered (fst (processSegment env flush s)), snd (processSegment env flush s))"
| "step (Stop flush) s =
     (delivered (fst (stopRecording flush s)), snd (stopRecording flush s))"

fun final :: "recorder \<Rightarrow> event list \<Rightarrow> recorder" where
  "final s [] = s"
| "final s (e # es) = final (snd (step e s)) es"

fun returned :: "recorder \<Rightarrow> event list \<Rightarrow> blob list" where
  "returned s [] = []"
| "returned s (e # es) = fst (step e s) @ returned (snd (step e s)) es"

section \<open>Dispatch adapter: \<open>sendAudioToBackend\<close>\<close>

subsection \<open>Data\<close>

datatype platform = Trello | Linear | Asana | Notion

fun platform_string :: "platform \<Rightarrow> string" where
  "platform_string Trello = ''trello''"
| "platform_string Linear = ''linear''"
| "platform_string Asana = ''asana''"
| "platform_string Notion = ''notion''"

text \<open>
  \<open>PlatformConfig\<close> is an untagged union of three object shapes; the source casts it
  by the platform argument and reads properties by name, so a property the object does
  not have reads as \<open>undefined\<close>.
\<close>

datatype platform_config =
    TrelloConfig string string string
  | LinearConfig string string
  | AsanaConfig string string

fun property :: "platform_config \<Rightarrow> string \<Rightarrow> string option" where
  "property (TrelloConfig apiKey token boardId) name =
     (if name = ''apiKey'' then Some apiKey
      else if name = ''token'' then Some token
      else if name = ''boardId'' then Some boardId
      else None)"
| "property (LinearConfig apiKey workspaceId) name =
     (if name = ''apiKey'' then Some apiKey
      else if name = ''workspaceId'' then Some workspaceId
      else None)"
| "property (AsanaConfig personalAccessToken projectId) name =
     (if name = ''personalAccessToken'' then Some personalAccessToken
      else if name = ''projectId'' then Some projectId
      else None)"

text \<open>
  \<open>FormData\<close>: the entries in the order they were appended. \<open>append\<close> turns a value
  that is not a blob into a string, \<open>undefined\<close> into the text ``undefined''.
\<close>

datatype form_value = File blob string | Text string

type_synonym form_data = "(string \<times> form_value) list"

definition append_text :: "string \<Rightarrow> string option \<Rightarrow> form_data \<Rightarrow> form_data" where
  "append_text name v fd =
     fd @ [(name, Text (case v of None \<Rightarrow> ''undefined'' | Some x \<Rightarrow> x))]"

record request =
  endpoint :: string
  http_method :: string
  form :: form_data

text \<open>
  A response as the source reads it: \<open>status\<close>, \<open>statusText\<close>, the text of the body, and
  the headers as the \<open>Headers\<close> object lists them, one entry for each name, the names in
  lower case and in ascending order.
\<close>

record response =
  status :: nat
  statusText :: string
  headers :: "(string \<times> string) list"
  responseText :: string

definition ok :: "response \<Rightarrow> bool" where
  "ok r = (200 \<le> status r \<and> status r \<le> 299)"

text \<open>
  What surrounds a dispatch: the build-time variable \<open>VITE_API_URL\<close>, the cookie store
  read by \<open>Cookies.get\<close>, \<open>fetch\<close> (the response, once its body text has been read, or
  the error the promise is rejected with) and \<open>JSON.parse\<close> (\<open>None\<close> where it throws).
\<close>

record 'j web =
  VITE_API_URL :: "string option"
  cookies :: "string \<Rightarrow> string option"
  fetch :: "request \<Rightarrow> js_error + response"
  JSON_parse :: "string \<Rightarrow> 'j option"

subsection \<open>Operations\<close>

fun string_includes :: "string \<Rightarrow> string \<Rightarrow> bool" where
  "string_includes [] sub = (sub = [])"
| "string_includes (c # cs) sub =
     (take (length sub) (c # cs) = sub \<or> string_includes cs sub)"

function string_of_nat :: "nat \<Rightarrow> string" where
  "string_of_nat n =
     (if n < 10 then [char_of (48 + n)]
      else string_of_nat (n div 10) @ [char_of (48 + n mod 10)])"
  by pat_completeness auto
termination
  by (relation "measure id") auto

text \<open>The default of the parameter \<open>baseUrl\<close>, used when the argument is absent.\<close>

definition base_url :: "'j web \<Rightarrow> string option \<Rightarrow> string" where
  "base_url env baseUrl =
     (case baseUrl of
        Some b \<Rightarrow> b
      | None \<Rightarrow>
          (case VITE_API_URL env of
             None \<Rightarrow> ''http://localhost:8000''
           | Some v \<Rightarrow> if v = [] then ''http://localhost:8000'' else v))"

text \<open>\<open>Cookies.get(name) || ""\<close>.\<close>

definition cookie_or_empty :: "'j web \<Rightarrow> string \<Rightarrow> string" where
  "cookie_or_empty env name = (case cookies env name of None \<Rightarrow> [] | Some v \<Rightarrow> v)"

text \<open>The first half of \<open>sendAudioToBackend\<close>: the request handed to \<open>fetch\<close>.\<close>

definition build_request ::
  "'j web \<Rightarrow> blob \<Rightarrow> platform option \<Rightarrow> platform_config option \<Rightarrow> string option \<Rightarrow> request" where
  "build_request env audioBlob platform config baseUrl =
     (let apiEndpoint =
            (if platform = Some Linear then base_url env baseUrl @ ''/send-audio-linear''
             else base_url env baseUrl @ ''/send-audio'');
          filename =
            (if string_includes (blob_type audioBlob) ''webm'' then ''recording.webm''
             else ''recording.wav'');
          fd1 = [(''audio'', File audioBlob filename)];
          fd2 = (case platform of
                   None \<Rightarrow> fd1
                 | Some p \<Rightarrow> append_text ''platform'' (Some (platform_string p)) fd1);
          fd3 = (case config of
                   Some c \<Rightarrow>
                     if platform = Some Trello then
                       append_text ''boardId'' (property c ''boardId'')
                         (append_text ''token'' (property c ''token'')
                           (append_text ''apiKey'' (property c ''apiKey'') fd2))
                     else if platform = Some Linear then
                       append_text ''workspaceId'' (property c ''workspaceId'')
                         (append_text ''apiKey'' (property c ''apiKey'') fd2)
                     else if platform = Some Asana then
                       append_text ''asanaProjectId'' (property c ''projectId'')
                         (append_text ''asanaToken'' (property c ''personalAccessToken'') fd2)
                     else fd2
                 | None \<Rightarrow>
                     append_text ''asanaProjectId'' (Some (cookie_or_empty env ''projectId''))
                       (append_text ''asanaToken'' (Some (cookie_or_empty env ''personalAccessToken''))
                         (append_text ''workspaceId'' (Some (cookie_or_empty env ''workspaceId''))
                           (append_text ''boardId'' (Some (cookie_or_empty env ''boardId''))
                             (append_text ''token'' (Some (cookie_or_empty env ''token''))
                               (append_text ''apiKey'' (Some (cookie_or_empty env ''apiKey'')) fd2))))))
      in \<lparr>endpoint = apiEndpoint, http_method = ''POST'', form = fd3\<rparr>)"

text \<open>
  The constructor \<open>new Response(text, {status, statusText, headers})\<close> of the Fetch
  standard, called with a string as body: a \<open>RangeError\<close> for a status outside 200..599,
  a \<open>TypeError\<close> for a status that allows no body, since the text is a body; otherwise
  the new response has the given status, status text and body, and the given headers
  copied, with the content type of a string body added when the headers name none.
\<close>

fun has_header :: "string \<Rightarrow> (string \<times> string) list \<Rightarrow> bool" where
  "has_header name [] = False"
| "has_header name (h # hs) = (fst h = name \<or> has_header name hs)"

fun insert_header :: "string \<times> string \<Rightarrow> (string \<times> string) list \<Rightarrow> (string \<times> string) list" where
  "insert_header h [] = [h]"
| "insert_header h (x # xs) = (if fst h < fst x then h # x # xs else x # insert_header h xs)"

definition new_Response ::
  "string \<Rightarrow> nat \<Rightarrow> string \<Rightarrow> (string \<times> string) list \<Rightarrow> js_error + response" where
  "new_Response body st stText hs =
     (if st < 200 \<or> 599 < st then
        Inl (RangeError ''The status provided is outside the range [200, 599]'')
      else if st = 204 \<or> st = 205 \<or> st = 304 then
        Inl (TypeError ''Response with null body status cannot have body'')
      else
        Inr \<lparr>status = st, statusText = stText,
             headers = (if has_header ''content-type'' hs then hs
                        else insert_header (''content-type'', ''text/plain;charset=UTF-8'') hs),
             responseText = body\<rparr>)"

text \<open>
  The second half: what the promise is settled with. A rejected \<open>fetch\<close>, a status
  outside 200..299 and a body that \<open>JSON.parse\<close> refuses each end in \<open>throw\<close>, which the
  outer \<open>catch\<close> logs and throws again, as it does an exception of the constructor of
  the new response. The fulfilled value is the new response, built from the text, the
  status, the status text and the headers of the fetched one, with the parsed data
  attached.
\<close>

definition handle_response :: "'j web \<Rightarrow> js_error + response \<Rightarrow> (response \<times> 'j) promise" where
  "handle_response env fetched =
     (case fetched of
        Inl error \<Rightarrow> Rejected error
      | Inr r \<Rightarrow>
          if \<not> ok r then
            Rejected (Error (''Backend error: '' @ string_of_nat (status r) @ '' '' @
                             statusText r @ '' - '' @ responseText r))
          else
            (case JSON_parse env (responseText r) of
               None \<Rightarrow> Rejected (Error ''Backend returned invalid JSON'')
             | Some data \<Rightarrow>
                 (case new_Response (responseText r) (status r) (statusText r) (headers r) of
                    Inl error \<Rightarrow> Rejected error
                  | Inr newResponse \<Rightarrow> Fulfilled (newResponse, data))))"

definition sendAudioToBackend ::
  "'j web \<Rightarrow> blob \<Rightarrow> platform option \<Rightarrow> platform_config option \<Rightarrow> string option \<Rightarrow>
     (response \<times> 'j) promise" where
  "sendAudioToBackend env audioBlob platform config baseUrl =
     handle_response env (fetch env (build_request env audioBlob platform config baseUrl))"

section \<open>Example environments\<close>

text \<open>
  A browser that grants the microphone and supports the preferred format, one that
  refuses the microphone, and one whose encoders cannot be started.
\<close>

definition granting_browser :: browser where
  "granting_browser =
     \<lparr>getUserMedia = Inr 1, isTypeSupported = (\<lambda>m. True),
      newMediaRecorder = (\<lambda>m. Inr (case m of None \<Rightarrow> [] | Some x \<Rightarrow> x)),
      start_throws = None\<rparr>"

definition refusing_browser :: browser where
  "refusing_browser = granting_browser\<lparr>getUserMedia := Inl (DOMException ''NotAllowedError'')\<rparr>"

definition stalling_browser :: browser where
  "stalling_browser = granting_browser\<lparr>start_throws := Some (DOMException ''NotSupportedError'')\<rparr>"

text \<open>
  A backend that answers every request with status 200 and the given body, behind a
  cookie store holding one key. The parser stands for \<open>JSON.parse\<close> on the two bodies
  used below: it accepts the text of the empty object and nothing else.
\<close>

definition answering_web :: "string \<Rightarrow> unit web" where
  "answering_web body =
     \<lparr>VITE_API_URL = None,
      cookies = (\<lambda>name. if name = ''apiKey'' then Some ''k'' else None),
      fetch = (\<lambda>req. Inr \<lparr>status = 200, statusText = ''OK'', headers = [], responseText = body\<rparr>),
      JSON_parse = (\<lambda>t. if t = ''{}'' then Some () else None)\<rparr>"

definition webm_blob :: blob where
  "webm_blob = \<lparr>blob_parts = [[1, 2]], blob_type = ''audio/webm;codecs=opus''\<rparr>"

section \<open>Facts about the capture engine\<close>

lemma ondataavailable_fields:
  "audioChunks (ondataavailable c s) = audioChunks s @ (if c = [] then [] else [c])"
  "history (ondataavailable c s) = history s @ (if c = [] then [] else [c])"
  "processedChunkCount (ondataavailable c s) = processedChunkCount s"
  "mediaRecorder (ondataavailable c s) = mediaRecorder s"
  "stream (ondataavailable c s) = stream s"
  by (simp_all add: ondataavailable_def)

lemma restartRecording_fields:
  "audioChunks (snd (restartRecording env m st s)) = audioChunks s"
  "processedChunkCount (snd (restartRecording env m st s)) = processedChunkCount s"
  "history (snd (restartRecording env m st s)) = history s"
  by (simp_all add: restartRecording_def Let_def split: sum.splits option.splits)

lemma restartRecording_outcome:
  "fst (restartRecording env m st s) = fst (restartRecording env m st t)"
  by (simp add: restartRecording_def Let_def split: sum.splits option.splits)

lemma restartRecording_not_recording:
  "fst (restartRecording env m st s) \<noteq> Fulfilled () \<Longrightarrow> \<not> isRecording s \<Longrightarrow>
   \<not> isRecording (snd (restartRecording env m st s))"
  by (cases st; cases "newMediaRecorder env (if \<not> isTypeSupported env m then None else Some m)";
      cases "start_throws env")
     (simp_all add: restartRecording_def Let_def isRecording_def)

lemma processSegment_idle:
  "\<not> isRecording s \<Longrightarrow> processSegment env c s = (Rejected (Error ''No active recording''), s)"
  by (simp add: processSegment_def isRecording_def split: option.splits)

lemma processSegment_fields:
  assumes "isRecording s"
  shows "audioChunks (snd (processSegment env c s)) = audioChunks s @ (if c = [] then [] else [c])"
    and "history (snd (processSegment env c s)) = history s @ (if c = [] then [] else [c])"
    and "processedChunkCount (snd (processSegment env c s)) = length (audioChunks s @ (if c = [] then [] else [c]))"
  using assms
  by (simp_all add: processSegment_def isRecording_def Let_def restartRecording_fields ondataavailable_fields
      split: option.splits)

lemma delivered_settle_with:
  "delivered (settle_with p b) = (if p = Fulfilled () then [b] else [])"
  by (cases p) simp_all

lemma processSegment_delivered:
  "concat (map blob_parts (delivered (fst (processSegment env c s)))) = [] \<or>
   concat (map blob_parts (delivered (fst (processSegment env c s)))) =
     drop (processedChunkCount s) (audioChunks s)"
  by (simp add: processSegment_def Let_def delivered_settle_with split: option.splits)

lemma stopRecording_cases:
  "stopRecording c s = (Rejected (Error ''No active recording''), s) \<or>
   stopRecording c s = (Pending, s) \<or>
   (\<exists>ty. stopRecording c s =
     (Fulfilled \<lparr>blob_parts = drop (processedChunkCount s) (audioChunks s @ (if c = [] then [] else [c])), blob_type = ty\<rparr>,
      \<lparr>mediaRecorder = None, audioChunks = [], processedChunkCount = 0, stream = None,
        history = history s @ (if c = [] then [] else [c])\<rparr>))"
  by (simp add: stopRecording_def Let_def cleanup_def ondataavailable_def split: option.splits)

lemma startRecording_fields:
  "history (snd (startRecording env s)) = history s"
  "(audioChunks (snd (startRecording env s)) = audioChunks s \<and> processedChunkCount (snd (startRecording env s)) = processedChunkCount s)
   \<or> (audioChunks (snd (startRecording env s)) = [] \<and> processedChunkCount (snd (startRecording env s)) = 0)"
  by (simp_all add: startRecording_def Let_def split: sum.splits option.splits)

text \<open>
  One event: the history grows by some list \<open>p\<close>, the cursor stays within the chunks,
  and what is handed out, followed by what is still pending, is drawn in order from what
  was pending followed by \<open>p\<close>.
\<close>

lemma step_pending:
  assumes "processedChunkCount s \<le> length (audioChunks s)"
  shows "\<exists>p. history (snd (step e s)) = history s @ p \<and>
             processedChunkCount (snd (step e s)) \<le> length (audioChunks (snd (step e s))) \<and>
             subseq (concat (map blob_parts (fst (step e s))) @
                     drop (processedChunkCount (snd (step e s))) (audioChunks (snd (step e s))))
                    (drop (processedChunkCount s) (audioChunks s) @ p)"
proof (cases e)
  case (Start env)
  from startRecording_fields(2) [of env s] show ?thesis
  proof
    assume "audioChunks (snd (startRecording env s)) = audioChunks s \<and>
            processedChunkCount (snd (startRecording env s)) = processedChunkCount s"
    with Start assms show ?thesis by (simp add: startRecording_fields(1))
  next
    assume "audioChunks (snd (startRecording env s)) = [] \<and>
            processedChunkCount (snd (startRecording env s)) = 0"
    with Start show ?thesis by (simp add: startRecording_fields(1))
  qed
next
  case (Chunk c)
  with assms show ?thesis by (simp add: ondataavailable_fields)
next
  case (Segment env c)
  show ?thesis
  proof (cases "isRecording s")
    case False
    with Segment assms show ?thesis by (simp add: processSegment_idle)
  next
    case True
    let ?p = "if c = [] then [] else [c]"
    have h: "history (snd (step e s)) = history s @ ?p"
      using Segment True by (simp add: processSegment_fields)
    have i: "processedChunkCount (snd (step e s)) = length (audioChunks (snd (step e s)))"
      using Segment True by (simp add: processSegment_fields)
    have "subseq (concat (map blob_parts (fst (step e s))))
                 (drop (processedChunkCount s) (audioChunks s) @ ?p)"
    proof -
      from processSegment_delivered [of env c s]
      have "concat (map blob_parts (fst (step e s))) = [] \<or>
            concat (map blob_parts (fst (step e s))) = drop (processedChunkCount s) (audioChunks s)"
        using Segment by simp
      then show ?thesis
      proof
        assume a: "concat (map blob_parts (fst (step e s))) = []"
        show ?thesis unfolding a by simp
      next
        assume a: "concat (map blob_parts (fst (step e s))) =
                   drop (processedChunkCount s) (audioChunks s)"
        show ?thesis unfolding a by (rule list_emb_prefix) simp
      qed
    qed
    with h i show ?thesis by auto
  qed
next
  case (Stop c)
  from stopRecording_cases [of c s] show ?thesis
  proof (elim disjE exE)
    assume "stopRecording c s = (Rejected (Error ''No active recording''), s)"
    with Stop assms show ?thesis by simp
  next
    assume "stopRecording c s = (Pending, s)"
    with Stop assms show ?thesis by simp
  next
    fix ty
    assume "stopRecording c s =
     (Fulfilled \<lparr>blob_parts = drop (processedChunkCount s) (audioChunks s @ (if c = [] then [] else [c])), blob_type = ty\<rparr>,
      \<lparr>mediaRecorder = None, audioChunks = [], processedChunkCount = 0, stream = None,
        history = history s @ (if c = [] then [] else [c])\<rparr>)"
    with Stop assms show ?thesis by simp
  qed
qed

lemma later_blobs:
  "processedChunkCount s \<le> length (audioChunks s) \<Longrightarrow>
   \<exists>p. history (final s evs) = history s @ p \<and>
       processedChunkCount (final s evs) \<le> length (audioChunks (final s evs)) \<and>
       subseq (concat (map blob_parts (returned s evs)))
              (drop (processedChunkCount s) (audioChunks s) @ p)"
proof (induction evs arbitrary: s)
  case Nil
  then show ?case by simp
next
  case (Cons e es)
  let ?s1 = "snd (step e s)"
  from step_pending [OF Cons.prems, of e] obtain p where
    p: "history ?s1 = history s @ p"
       "processedChunkCount ?s1 \<le> length (audioChunks ?s1)"
       "subseq (concat (map blob_parts (fst (step e s))) @
                drop (processedChunkCount ?s1) (audioChunks ?s1))
               (drop (processedChunkCount s) (audioChunks s) @ p)"
    by blast
  from Cons.IH [OF p(2)] obtain q where
    q: "history (final ?s1 es) = history ?s1 @ q"
       "processedChunkCount (final ?s1 es) \<le> length (audioChunks (final ?s1 es))"
       "subseq (concat (map blob_parts (returned ?s1 es)))
               (drop (processedChunkCount ?s1) (audioChunks ?s1) @ q)"
    by blast
  have "subseq (concat (map blob_parts (fst (step e s))) @ concat (map blob_parts (returned ?s1 es)))
               (concat (map blob_parts (fst (step e s))) @
                  (drop (processedChunkCount ?s1) (audioChunks ?s1) @ q))"
    using q(3) by (simp add: list_emb_append_mono)
  also have "subseq \<dots> ((drop (processedChunkCount s) (audioChunks s) @ p) @ q)"
    using p(3) by (simp add: list_emb_append_mono del: append_assoc add: append_assoc [symmetric])
  finally have "subseq (concat (map blob_parts (returned s (e # es))))
                       (drop (processedChunkCount s) (audioChunks s) @ (p @ q))"
    by simp
  with p(1) q(1) q(2) show ?case by auto
qed

lemma reachable_cursor:
  "processedChunkCount (final new_recorder evs) \<le> length (audioChunks (final new_recorder evs))"
  using later_blobs [of new_recorder evs] by (auto simp: new_recorder_def)

section \<open>Properties of the capture engine\<close>

text \<open>
  C1 (exactly-once delivery) at a session where the claim fails: start, one chunk \<open>[1]\<close>
  arrives, \<open>processSegment\<close> whose \<open>stop()\<close> flushes the chunk \<open>[2]\<close>, then
  \<open>stopRecording\<close> whose \<open>stop()\<close> flushes \<open>[3]\<close>. The two returned blobs hold \<open>[1]\<close> and
  \<open>[3]\<close>; the chunk \<open>[2]\<close>, pushed during the finalize of the segment, is in the history
  and in no returned blob.
\<close>

theorem processSegment_skips_flushed_chunk:
  "concat (map blob_parts (returned new_recorder
      [Start granting_browser, Chunk [1], Segment granting_browser [2], Stop [3]])) = [[1], [3]] \<and>
   history (final new_recorder
      [Start granting_browser, Chunk [1], Segment granting_browser [2], Stop [3]]) = [[1], [2], [3]]"
  by (simp add: new_recorder_def granting_browser_def startRecording_def processSegment_def
      restartRecording_def stopRecording_def ondataavailable_def cleanup_def Let_def)

text \<open>
  C3 (state invariant) at the state where its second half fails: after start, the chunk
  \<open>[1]\<close> and a \<open>processSegment\<close> whose \<open>stop()\<close> flushes \<open>[2]\<close>, only \<open>[1]\<close> has been
  delivered, yet the cursor is 2 and no chunk lies at or after it: the undelivered
  chunk \<open>[2]\<close> is not in the range from the cursor to the end.
\<close>

theorem flushed_chunk_behind_cursor:
  "concat (map blob_parts (returned new_recorder
      [Start granting_browser, Chunk [1], Segment granting_browser [2]])) = [[1]] \<and>
   audioChunks (final new_recorder
      [Start granting_browser, Chunk [1], Segment granting_browser [2]]) = [[1], [2]] \<and>
   processedChunkCount (final new_recorder
      [Start granting_browser, Chunk [1], Segment granting_browser [2]]) = 2 \<and>
   drop (processedChunkCount (final new_recorder
          [Start granting_browser, Chunk [1], Segment granting_browser [2]]))
        (audioChunks (final new_recorder
          [Start granting_browser, Chunk [1], Segment granting_browser [2]])) = []"
  by (simp add: new_recorder_def granting_browser_def startRecording_def processSegment_def
      restartRecording_def ondataavailable_def Let_def)

text \<open>
  C4 (cursor monotonicity) as stated fails: \<open>stopRecording\<close> ends in \<open>cleanup\<close>, which
  resets the cursor, so the cursor decreases from 2 to 0.
\<close>

theorem cursor_decreases_on_stop:
  "processedChunkCount (final new_recorder
      [Start granting_browser, Chunk [1], Segment granting_browser [2], Stop [3]])
   < processedChunkCount (final new_recorder
      [Start granting_browser, Chunk [1], Segment granting_browser [2]])"
  by (simp add: new_recorder_def granting_browser_def startRecording_def processSegment_def
      restartRecording_def stopRecording_def ondataavailable_def cleanup_def Let_def)

text \<open>
  C4, amended: in every state a recorder can reach, a \<open>processSegment\<close> that resolves
  leaves the cursor equal to the length of \<open>audioChunks\<close>; a \<open>stopRecording\<close> that
  resolves leaves both at 0; the cursor does not decrease when a chunk arrives or
  \<open>processSegment\<close> is called; \<open>startRecording\<close> keeps it or resets it to 0.
\<close>

theorem cursor_after_finalize:
  assumes "s = final new_recorder evs"
  shows "(fst (processSegment env c s) = Fulfilled b \<longrightarrow>
            processedChunkCount (snd (processSegment env c s)) =
              length (audioChunks (snd (processSegment env c s)))) \<and>
         (fst (stopRecording c s) = Fulfilled b \<longrightarrow>
            processedChunkCount (snd (stopRecording c s)) =
              length (audioChunks (snd (stopRecording c s))) \<and>
            processedChunkCount (snd (stopRecording c s)) = 0) \<and>
         processedChunkCount s \<le> processedChunkCount (ondataavailable c s) \<and>
         processedChunkCount s \<le> processedChunkCount (snd (processSegment env c s)) \<and>
         (processedChunkCount (snd (startRecording env s)) = processedChunkCount s \<or>
          processedChunkCount (snd (startRecording env s)) = 0)"
proof -
  have inv: "processedChunkCount s \<le> length (audioChunks s)"
    using assms reachable_cursor by simp
  have seg: "fst (processSegment env c s) = Fulfilled b \<longrightarrow>
            processedChunkCount (snd (processSegment env c s)) =
              length (audioChunks (snd (processSegment env c s)))"
    by (cases "isRecording s") (simp_all add: processSegment_idle processSegment_fields)
  have stop: "fst (stopRecording c s) = Fulfilled b \<longrightarrow>
            processedChunkCount (snd (stopRecording c s)) =
              length (audioChunks (snd (stopRecording c s))) \<and>
            processedChunkCount (snd (stopRecording c s)) = 0"
    using stopRecording_cases [of c s] by auto
  have chunk: "processedChunkCount s \<le> processedChunkCount (ondataavailable c s)"
    by (simp add: ondataavailable_fields)
  have mono: "processedChunkCount s \<le> processedChunkCount (snd (processSegment env c s))"
    using inv by (cases "isRecording s") (simp_all add: processSegment_idle processSegment_fields)
  have start: "processedChunkCount (snd (startRecording env s)) = processedChunkCount s \<or>
          processedChunkCount (snd (startRecording env s)) = 0"
    using startRecording_fields(2) [of env s] by auto
  from seg stop chunk mono start show ?thesis by blast
qed

theorem cursor_after_finalize_witness:
  "final new_recorder [Start granting_browser, Chunk [1]] =
     final new_recorder [Start granting_browser, Chunk [1]] \<and>
   fst (processSegment granting_browser [2] (final new_recorder [Start granting_browser, Chunk [1]]))
     = Fulfilled \<lparr>blob_parts = [[1]], blob_type = ''audio/webm;codecs=opus''\<rparr> \<and>
   processedChunkCount
     (snd (processSegment granting_browser [2] (final new_recorder [Start granting_browser, Chunk [1]])))
     = length (audioChunks
        (snd (processSegment granting_browser [2] (final new_recorder [Start granting_browser, Chunk [1]])))) \<and>
   fst (stopRecording [2] (final new_recorder [Start granting_browser, Chunk [1]]))
     = Fulfilled \<lparr>blob_parts = [[1], [2]], blob_type = ''audio/webm;codecs=opus''\<rparr> \<and>
   processedChunkCount (snd (stopRecording [2] (final new_recorder [Start granting_browser, Chunk [1]])))
     = 0"
proof -
  have seg: "fst (processSegment granting_browser [2]
                (final new_recorder [Start granting_browser, Chunk [1]]))
     = Fulfilled \<lparr>blob_parts = [[1]], blob_type = ''audio/webm;codecs=opus''\<rparr>"
    by (simp add: new_recorder_def granting_browser_def startRecording_def processSegment_def
        restartRecording_def ondataavailable_def Let_def)
  have stop: "fst (stopRecording [2] (final new_recorder [Start granting_browser, Chunk [1]]))
     = Fulfilled \<lparr>blob_parts = [[1], [2]], blob_type = ''audio/webm;codecs=opus''\<rparr>"
    by (simp add: new_recorder_def granting_browser_def startRecording_def stopRecording_def
        ondataavailable_def cleanup_def Let_def)
  from cursor_after_finalize [OF refl, of granting_browser "[2]" "[Start granting_browser, Chunk [1]]"
      "\<lparr>blob_parts = [[1]], blob_type = ''audio/webm;codecs=opus''\<rparr>"] seg
  have a: "processedChunkCount
     (snd (processSegment granting_browser [2] (final new_recorder [Start granting_browser, Chunk [1]])))
     = length (audioChunks
        (snd (processSegment granting_browser [2] (final new_recorder [Start granting_browser, Chunk [1]]))))"
    by blast
  from cursor_after_finalize [OF refl, of granting_browser "[2]" "[Start granting_browser, Chunk [1]]"
      "\<lparr>blob_parts = [[1], [2]], blob_type = ''audio/webm;codecs=opus''\<rparr>"] stop
  have b: "processedChunkCount
     (snd (stopRecording [2] (final new_recorder [Start granting_browser, Chunk [1]]))) = 0"
    by blast
  from seg stop a b show ?thesis by blast
qed

text \<open>
  C6 (failed-start atomicity): when \<open>getUserMedia\<close> is rejected, \<open>startRecording\<close> is
  rejected with that error and the recorder is exactly as before, every field
  unchanged; a recorder that was not recording is still not recording.
\<close>

theorem startRecording_device_unavailable:
  assumes "getUserMedia env = Inl error"
  shows "startRecording env s = (Rejected error, s) \<and>
         (\<not> isRecording s \<longrightarrow> \<not> isRecording (snd (startRecording env s)))"
  using assms by (simp add: startRecording_def)

theorem startRecording_device_unavailable_witness:
  "getUserMedia refusing_browser = Inl (DOMException ''NotAllowedError'') \<and>
   \<not> isRecording new_recorder \<and>
   startRecording refusing_browser new_recorder =
     (Rejected (DOMException ''NotAllowedError''), new_recorder) \<and>
   \<not> isRecording (snd (startRecording refusing_browser new_recorder))"
proof -
  have h: "getUserMedia refusing_browser = Inl (DOMException ''NotAllowedError'')"
    by (simp add: refusing_browser_def granting_browser_def)
  have i: "\<not> isRecording new_recorder"
    by (simp add: isRecording_def new_recorder_def)
  from startRecording_device_unavailable [OF h, of new_recorder] h i show ?thesis by blast
qed

text \<open>
  C9 (a failed segment is not rolled back): when the recorder is recording and the
  restart inside \<open>processSegment\<close> fails, the promise of \<open>processSegment\<close> is rejected
  with the error of the restart; the chunks are still in \<open>audioChunks\<close> but the cursor
  stands at its end and the recorder is no longer recording; and whatever is called
  afterwards, the chunks of every blob returned later are, in order, among the chunks
  pushed after the failure, so the chunks of the failed segment are never delivered.
\<close>

theorem failed_restart_loses_segment:
  assumes "mediaRecorder s = Some mr"
    and "state mr = Recording"
    and "fst (restartRecording env (mimeType mr) (stream s) s) = Rejected error"
  shows "fst (processSegment env c s) = Rejected error \<and>
         audioChunks (snd (processSegment env c s)) = audioChunks s @ (if c = [] then [] else [c]) \<and>
         processedChunkCount (snd (processSegment env c s)) =
           length (audioChunks (snd (processSegment env c s))) \<and>
         \<not> isRecording (snd (processSegment env c s)) \<and>
         (\<forall>evs. subseq (concat (map blob_parts (returned (snd (processSegment env c s)) evs)))
                       (drop (length (history (snd (processSegment env c s))))
                             (history (final (snd (processSegment env c s)) evs))))"
proof -
  let ?s1 = "ondataavailable c (s\<lparr>mediaRecorder := Some (mr\<lparr>state := Inactive\<rparr>)\<rparr>)"
  let ?s2 = "?s1\<lparr>processedChunkCount := length (audioChunks ?s1)\<rparr>"
  let ?s' = "snd (processSegment env c s)"
  have rec: "isRecording s"
    using assms(1,2) by (simp add: isRecording_def)
  have unfold: "processSegment env c s =
      (settle_with (fst (restartRecording env (mimeType mr) (stream s) ?s2))
         \<lparr>blob_parts = drop (processedChunkCount s) (audioChunks s), blob_type = mimeType mr\<rparr>,
       snd (restartRecording env (mimeType mr) (stream s) ?s2))"
    using assms(1,2) by (simp add: processSegment_def Let_def)
  have out: "fst (restartRecording env (mimeType mr) (stream s) ?s2) = Rejected error"
    using assms(3) restartRecording_outcome [of env "mimeType mr" "stream s" ?s2 s] by simp
  have rejected: "fst (processSegment env c s) = Rejected error"
    using unfold out by simp
  have chunks: "audioChunks ?s' = audioChunks s @ (if c = [] then [] else [c])"
    using rec by (simp add: processSegment_fields)
  have cursor: "processedChunkCount ?s' = length (audioChunks ?s')"
    using rec by (simp add: processSegment_fields)
  have "\<not> isRecording ?s2"
    by (simp add: isRecording_def ondataavailable_def)
  moreover have "fst (restartRecording env (mimeType mr) (stream s) ?s2) \<noteq> Fulfilled ()"
    using out by simp
  ultimately have "\<not> isRecording (snd (restartRecording env (mimeType mr) (stream s) ?s2))"
    by (rule restartRecording_not_recording [rotated])
  then have idle: "\<not> isRecording ?s'"
    using unfold by simp
  have later: "subseq (concat (map blob_parts (returned ?s' evs)))
                      (drop (length (history ?s')) (history (final ?s' evs)))" for evs
  proof -
    from cursor have "processedChunkCount ?s' \<le> length (audioChunks ?s')" by simp
    from later_blobs [OF this, of evs] obtain p where
      p: "history (final ?s' evs) = history ?s' @ p"
         "subseq (concat (map blob_parts (returned ?s' evs)))
                 (drop (processedChunkCount ?s') (audioChunks ?s') @ p)"
      by blast
    from p(2) cursor have "subseq (concat (map blob_parts (returned ?s' evs))) p" by simp
    with p(1) show ?thesis by simp
  qed
  from rejected chunks cursor idle later show ?thesis by blast
qed

theorem failed_restart_loses_segment_witness:
  "mediaRecorder (final new_recorder [Start granting_browser, Chunk [1]]) =
     Some \<lparr>mimeType = ''audio/webm;codecs=opus'', state = Recording\<rparr> \<and>
   state \<lparr>mimeType = ''audio/webm;codecs=opus'', state = Recording\<rparr> = Recording \<and>
   fst (restartRecording stalling_browser ''audio/webm;codecs=opus''
         (stream (final new_recorder [Start granting_browser, Chunk [1]]))
         (final new_recorder [Start granting_browser, Chunk [1]])) =
     Rejected (DOMException ''NotSupportedError'') \<and>
   fst (processSegment stalling_browser [2] (final new_recorder [Start granting_browser, Chunk [1]])) =
     Rejected (DOMException ''NotSupportedError'') \<and>
   audioChunks (snd (processSegment stalling_browser [2]
     (final new_recorder [Start granting_browser, Chunk [1]]))) = [[1], [2]] \<and>
   processedChunkCount (snd (processSegment stalling_browser [2]
     (final new_recorder [Start granting_browser, Chunk [1]]))) = 2 \<and>
   subseq (concat (map blob_parts (returned (snd (processSegment stalling_browser [2]
              (final new_recorder [Start granting_browser, Chunk [1]]))) [Stop [3]])))
          (drop (length (history (snd (processSegment stalling_browser [2]
              (final new_recorder [Start granting_browser, Chunk [1]])))))
             (history (final (snd (processSegment stalling_browser [2]
              (final new_recorder [Start granting_browser, Chunk [1]]))) [Stop [3]])))"
proof -
  let ?s = "final new_recorder [Start granting_browser, Chunk [1]]"
  let ?mr = "\<lparr>mimeType = ''audio/webm;codecs=opus'', state = Recording\<rparr>"
  have h1: "mediaRecorder ?s = Some ?mr"
    by (simp add: new_recorder_def granting_browser_def startRecording_def ondataavailable_def Let_def)
  have h2: "state ?mr = Recording"
    by simp
  have h3: "fst (restartRecording stalling_browser (mimeType ?mr) (stream ?s) ?s) =
            Rejected (DOMException ''NotSupportedError'')"
    by (simp add: restartRecording_def stalling_browser_def new_recorder_def granting_browser_def
        startRecording_def ondataavailable_def Let_def)
  have chunks: "audioChunks ?s = [[1]]"
    by (simp add: new_recorder_def granting_browser_def startRecording_def ondataavailable_def Let_def)
  note t = failed_restart_loses_segment [OF h1 h2 h3, of "[2]"]
  from t have a: "fst (processSegment stalling_browser [2] ?s) =
     Rejected (DOMException ''NotSupportedError'')" by blast
  from t chunks have b: "audioChunks (snd (processSegment stalling_browser [2] ?s)) = [[1], [2]]"
    by simp
  from t b have c: "processedChunkCount (snd (processSegment stalling_browser [2] ?s)) = 2"
    by simp
  from t have d: "subseq (concat (map blob_parts (returned (snd (processSegment stalling_browser [2] ?s)) [Stop [3]])))
          (drop (length (history (snd (processSegment stalling_browser [2] ?s))))
             (history (final (snd (processSegment stalling_browser [2] ?s)) [Stop [3]])))"
    by blast
  from h1 h2 h3 a b c d show ?thesis by simp
qed

section \<open>Properties of the dispatch adapter\<close>

text \<open>
  C2 (malformed response) as stated fails: for status 200 and a body that is not JSON
  the promise of \<open>sendAudioToBackend\<close> is not resolved with a value, it is rejected: the
  function throws \<open>Error("Backend returned invalid JSON")\<close> to its caller.
\<close>

theorem invalid_json_is_thrown:
  "sendAudioToBackend (answering_web ''<html>'') webm_blob None None None =
     Rejected (Error ''Backend returned invalid JSON'')"
  by (simp add: sendAudioToBackend_def handle_response_def ok_def answering_web_def)

text \<open>
  C2, amended: whenever the backend answers with status 200 and a body that
  \<open>JSON.parse\<close> refuses, the parser's exception is caught and the promise of
  \<open>sendAudioToBackend\<close> is rejected with \<open>Error("Backend returned invalid JSON")\<close>.
\<close>

theorem invalid_json_rejects:
  assumes "fetch env (build_request env b p cfg base) = Inr r"
    and "status r = 200"
    and "JSON_parse env (responseText r) = None"
  shows "sendAudioToBackend env b p cfg base = Rejected (Error ''Backend returned invalid JSON'')"
  using assms by (simp add: sendAudioToBackend_def handle_response_def ok_def)

theorem invalid_json_rejects_witness:
  "fetch (answering_web ''<html>'') (build_request (answering_web ''<html>'') webm_blob (Some Trello) None None) =
     Inr \<lparr>status = 200, statusText = ''OK'', headers = [], responseText = ''<html>''\<rparr> \<and>
   status \<lparr>status = 200, statusText = ''OK'', headers = [], responseText = ''<html>''\<rparr> = 200 \<and>
   JSON_parse (answering_web ''<html>'') ''<html>'' = None \<and>
   sendAudioToBackend (answering_web ''<html>'') webm_blob (Some Trello) None None =
     Rejected (Error ''Backend returned invalid JSON'')"
  using invalid_json_rejects [of "answering_web ''<html>''" webm_blob "Some Trello" None None
      "\<lparr>status = 200, statusText = ''OK'', headers = [], responseText = ''<html>''\<rparr>"]
  by (simp add: answering_web_def)

text \<open>
  C5 (route selection): with platform \<open>linear\<close> the request goes to
  \<open>{base}/send-audio-linear\<close>; with \<open>trello\<close>, \<open>asana\<close>, \<open>notion\<close> or no platform it
  goes to \<open>{base}/send-audio\<close>, whatever the blob and the credentials.
\<close>

theorem route_selection:
  "endpoint (build_request env b (Some Linear) cfg base) = base_url env base @ ''/send-audio-linear'' \<and>
   endpoint (build_request env b (Some Trello) cfg base) = base_url env base @ ''/send-audio'' \<and>
   endpoint (build_request env b (Some Asana) cfg base) = base_url env base @ ''/send-audio'' \<and>
   endpoint (build_request env b (Some Notion) cfg base) = base_url env base @ ''/send-audio'' \<and>
   endpoint (build_request env b None cfg base) = base_url env base @ ''/send-audio''"
  by (simp add: build_request_def Let_def)

text \<open>
  C7 (legacy credential fallback): without a credential bundle the form holds the
  audio, the platform if there is one, and then the six fields \<open>apiKey\<close>, \<open>token\<close>,
  \<open>boardId\<close>, \<open>workspaceId\<close>, \<open>asanaToken\<close>, \<open>asanaProjectId\<close> read from the cookies
  \<open>apiKey\<close>, \<open>token\<close>, \<open>boardId\<close>, \<open>workspaceId\<close>, \<open>personalAccessToken\<close>, \<open>projectId\<close>,
  empty where the cookie is missing; and the dispatch does not fail for the missing
  bundle: when the backend answers 200 with a JSON body the promise is fulfilled with
  the new response (the status, status text and body of the answer, its headers with
  the content type of a text body added when the answer names none) and the parsed data.
\<close>

theorem cookie_fallback:
  "form (build_request env b p None base) =
     (''audio'', File b (if string_includes (blob_type b) ''webm'' then ''recording.webm''
                        else ''recording.wav'')) #
     (case p of None \<Rightarrow> [] | Some q \<Rightarrow> [(''platform'', Text (platform_string q))]) @
     [(''apiKey'', Text (case cookies env ''apiKey'' of None \<Rightarrow> '''' | Some v \<Rightarrow> v)),
      (''token'', Text (case cookies env ''token'' of None \<Rightarrow> '''' | Some v \<Rightarrow> v)),
      (''boardId'', Text (case cookies env ''boardId'' of None \<Rightarrow> '''' | Some v \<Rightarrow> v)),
      (''workspaceId'', Text (case cookies env ''workspaceId'' of None \<Rightarrow> '''' | Some v \<Rightarrow> v)),
      (''asanaToken'', Text (case cookies env ''personalAccessToken'' of None \<Rightarrow> '''' | Some v \<Rightarrow> v)),
      (''asanaProjectId'', Text (case cookies env ''projectId'' of None \<Rightarrow> '''' | Some v \<Rightarrow> v))] \<and>
   (fetch env (build_request env b p None base) = Inr r \<and> status r = 200 \<and>
    JSON_parse env (responseText r) = Some d \<longrightarrow>
      sendAudioToBackend env b p None base =
        Fulfilled
          (r\<lparr>headers :=
               (if has_header ''content-type'' (headers r) then headers r
                else insert_header (''content-type'', ''text/plain;charset=UTF-8'') (headers r))\<rparr>,
           d))"
  by (simp add: build_request_def Let_def append_text_def cookie_or_empty_def
      sendAudioToBackend_def handle_response_def new_Response_def ok_def split: option.splits)

theorem cookie_fallback_witness:
  "fetch (answering_web ''{}'') (build_request (answering_web ''{}'') webm_blob None None None) =
     Inr \<lparr>status = 200, statusText = ''OK'', headers = [], responseText = ''{}''\<rparr> \<and>
   status \<lparr>status = 200, statusText = ''OK'', headers = [], responseText = ''{}''\<rparr> = 200 \<and>
   JSON_parse (answering_web ''{}'') ''{}'' = Some () \<and>
   form (build_request (answering_web ''{}'') webm_blob None None None) =
     [(''audio'', File webm_blob ''recording.webm''), (''apiKey'', Text ''k''), (''token'', Text ''''),
      (''boardId'', Text ''''), (''workspaceId'', Text ''''), (''asanaToken'', Text ''''),
      (''asanaProjectId'', Text '''')] \<and>
   sendAudioToBackend (answering_web ''{}'') webm_blob None None None =
     Fulfilled
       (\<lparr>status = 200, statusText = ''OK'',
         headers = [(''content-type'', ''text/plain;charset=UTF-8'')], responseText = ''{}''\<rparr>,
        ())"
  using cookie_fallback [of "answering_web ''{}''" webm_blob None None
      "\<lparr>status = 200, statusText = ''OK'', headers = [], responseText = ''{}''\<rparr>" "()"]
  by (simp add: answering_web_def webm_blob_def)

text \<open>
  C8 (Trello scenario): dispatching a blob with platform \<open>trello\<close> and the credentials
  \<open>{apiKey: "k", token: "t", boardId: "b"}\<close> posts to \<open>{base}/send-audio\<close> a form with
  exactly the fields \<open>audio\<close> (the blob, named \<open>recording.webm\<close> when its type contains
  \<open>webm\<close> and \<open>recording.wav\<close> otherwise), \<open>platform=trello\<close>, \<open>apiKey=k\<close>, \<open>token=t\<close>,
  \<open>boardId=b\<close>, in this order.
\<close>

theorem trello_dispatch:
  "build_request env b (Some Trello) (Some (TrelloConfig ''k'' ''t'' ''b'')) base =
     \<lparr>endpoint = base_url env base @ ''/send-audio'', http_method = ''POST'',
      form = [(''audio'', File b (if string_includes (blob_type b) ''webm'' then ''recording.webm''
                                  else ''recording.wav'')),
              (''platform'', Text ''trello''), (''apiKey'', Text ''k''), (''token'', Text ''t''),
              (''boardId'', Text ''b'')]\<rparr>"
  by (simp add: build_request_def Let_def append_text_def)

text \<open>
  C10 (no credentials for an unknown platform): when a credential bundle is given and
  the platform is absent or \<open>notion\<close>, the form holds no credential field: only the
  audio and, for \<open>notion\<close>, the platform.
\<close>

theorem no_credentials_without_known_platform:
  "form (build_request env b None (Some c) base) =
     [(''audio'', File b (if string_includes (blob_type b) ''webm'' then ''recording.webm''
                         else ''recording.wav''))] \<and>
   form (build_request env b (Some Notion) (Some c) base) =
     [(''audio'', File b (if string_includes (blob_type b) ''webm'' then ''recording.webm''
                         else ''recording.wav'')),
      (''platform'', Text ''notion'')]"
  by (simp add: build_request_def Let_def append_text_def)

end
